theory Spec2Isabelle
  imports Main "HOL-Library.Monad_Syntax"
begin

text \<open>
  A model of the trial matcher's web front end: the route handler
  \<open>app/api/match/route.js\<close>, the variant of that handler which limits the number of
  searches per client address, and the summary that \<open>app/components/PDFReport.js\<close>
  computes from a response. The handlers are functions of the request, of the
  environment (the credential and the answer of the Groq backend) and, for the limited
  variant, of the map of counters, which they return updated.
\<close>

section \<open>JSON values and the JavaScript coercions the handlers rely on\<close>

text \<open>
  The request body, the form data and the parsed response are JSON values. A property read
  yields \<open>json option\<close>, where \<open>None\<close> is JavaScript's \<open>undefined\<close>. The handlers do
  nothing with a number but print it and test it against zero, so a number is held as
  the text JavaScript prints for it (\<open>55\<close>, \<open>-5\<close>, \<open>0.5\<close>, \<open>1e+21\<close>); both zeros
  print as \<open>0\<close>.
\<close>

datatype json =
    JNull
  | JBool bool
  | JNum string
  | JStr string
  | JArr "json list"
  | JObj "(string \<times> json) list"

text \<open>\<open>v.k\<close> on a non-null value: own property of an object (the last duplicate key of
  the JSON text wins), \<open>undefined\<close> on every other value, for the keys the handlers read.\<close>

definition field :: "json \<Rightarrow> string \<Rightarrow> json option" where
  "field v k = (case v of JObj kv \<Rightarrow> map_of (rev kv) k | _ \<Rightarrow> None)"

definition truthy :: "json option \<Rightarrow> bool" where
  "truthy v =
     (case v of
        None \<Rightarrow> False
      | Some JNull \<Rightarrow> False
      | Some (JBool b) \<Rightarrow> b
      | Some (JNum n) \<Rightarrow> n \<noteq> ''0''
      | Some (JStr s) \<Rightarrow> s \<noteq> []
      | Some (JArr xs) \<Rightarrow> True
      | Some (JObj kv) \<Rightarrow> True)"

fun join :: "string \<Rightarrow> string list \<Rightarrow> string" where
  "join sep [] = []"
| "join sep [x] = x"
| "join sep (x # y # ys) = x @ sep @ join sep (y # ys)"

text \<open>
  String conversion of a JSON value, as string concatenation and template literals
  perform it; \<open>None\<close> is the \<open>TypeError\<close> it can throw. An array is its elements joined
  by commas, with \<open>null\<close> elements empty. An object prints as \<open>[object Object]\<close> through
  the \<open>toString\<close> it inherits; an own property \<open>toString\<close> hides that method, and as
  no JSON value is a function the conversion finds no method that yields a primitive
  value, and throws.
\<close>

fun js_string :: "json \<Rightarrow> string option" where
  "js_string JNull = Some ''null''"
| "js_string (JBool b) = Some (if b then ''true'' else ''false'')"
| "js_string (JNum n) = Some n"
| "js_string (JStr s) = Some s"
| "js_string (JArr xs) =
     map_option (join '','')
       (those (map (\<lambda>x. if x = JNull then Some [] else js_string x) xs))"
| "js_string (JObj kv) =
     (if ''toString'' \<in> fst ` set kv then None else Some ''[object Object]'')"

definition to_string :: "json option \<Rightarrow> string option" where
  "to_string v = (case v of None \<Rightarrow> Some ''undefined'' | Some j \<Rightarrow> js_string j)"

text \<open>The interpolation of \<open>v || d\<close> for a string default \<open>d\<close>.\<close>

definition or_default :: "json option \<Rightarrow> string \<Rightarrow> string option" where
  "or_default v d = (if truthy v then to_string v else Some d)"

text \<open>A value that is absent or primitive: its conversion never throws.\<close>

definition scalar :: "json option \<Rightarrow> bool" where
  "scalar v =
     (case v of
        None \<Rightarrow> True
      | Some (JArr xs) \<Rightarrow> False
      | Some (JObj kv) \<Rightarrow> False
      | Some _ \<Rightarrow> True)"

section \<open>The trial data and the prompt\<close>

record trial =
  trial_nct_id :: string
  trial_title :: string
  trial_conditions :: string
  trial_phase :: string

definition SAMPLE_TRIALS :: "trial list" where
  "SAMPLE_TRIALS =
     [\<lparr>trial_nct_id = ''NCT04743505'',
       trial_title = ''Study of Novel Therapy for Lung Cancer'',
       trial_conditions = ''Non-Small Cell Lung Cancer'',
       trial_phase = ''Phase 3''\<rparr>,
      \<lparr>trial_nct_id = ''NCT05745350'',
       trial_title = ''Diabetes Management Trial'',
       trial_conditions = ''Type 2 Diabetes'',
       trial_phase = ''Phase 2''\<rparr>]"

text \<open>\<open>JSON.stringify\<close> of the trial list. The quoting is the one of strings without
  characters that need an escape, which is what \<open>SAMPLE_TRIALS\<close> holds.\<close>

definition quoted :: "string \<Rightarrow> string" where
  \<open>quoted s = ''"'' @ s @ ''"''\<close>

definition stringify_trial :: "trial \<Rightarrow> string" where
  \<open>stringify_trial t =
     ''{"nct_id":'' @ quoted (trial_nct_id t) @
     '',"title":'' @ quoted (trial_title t) @
     '',"conditions":'' @ quoted (trial_conditions t) @
     '',"phase":'' @ quoted (trial_phase t) @ ''}''\<close>

definition stringify_trials :: "trial list \<Rightarrow> string" where
  "stringify_trials ts = ''['' @ join '','' (map stringify_trial ts) @ '']''"

definition newline :: string where
  "newline = [CHR 0x0A]"

text \<open>The template literal of \<open>app/api/match/route.js\<close>, line by line, as a function
  of the five texts it interpolates.\<close>

definition prompt_text :: "string \<Rightarrow> string \<Rightarrow> string \<Rightarrow> string \<Rightarrow> string \<Rightarrow> string" where
  "prompt_text age gender conditions medications biomarkers = join newline
     [''Analyze if this patient is eligible for clinical trials:'',
      ''    Patient: Age '' @ age @ '', '' @ gender @ '', '',
      ''    Conditions: '' @ conditions,
      ''    Medications: '' @ medications,
      ''    Biomarkers: '' @ biomarkers,
      ''    '',
      ''    Available trials: '' @ stringify_trials SAMPLE_TRIALS,
      ''    '',
      ''    Return a JSON array with eligibility status for each trial.'']"

text \<open>The template literal of the rate-limited handler: the same text without the
  trailing blanks.\<close>

definition prompt_limited_text ::
    "string \<Rightarrow> string \<Rightarrow> string \<Rightarrow> string \<Rightarrow> string \<Rightarrow> string" where
  "prompt_limited_text age gender conditions medications biomarkers = join newline
     [''Analyze if this patient is eligible for clinical trials:'',
      ''    Patient: Age '' @ age @ '', '' @ gender @ '','',
      ''    Conditions: '' @ conditions,
      ''    Medications: '' @ medications,
      ''    Biomarkers: '' @ biomarkers,
      '''',
      ''    Available trials: '' @ stringify_trials SAMPLE_TRIALS,
      '''',
      ''    Return a JSON array with eligibility status for each trial.'']"

text \<open>Building the prompt converts the five fields from left to right; it throws
  (\<open>None\<close>) when one of the conversions does.\<close>

definition prompt :: "json \<Rightarrow> string option" where
  "prompt patientData = do {
     age \<leftarrow> to_string (field patientData ''age'');
     gender \<leftarrow> to_string (field patientData ''gender'');
     conditions \<leftarrow> to_string (field patientData ''conditions'');
     medications \<leftarrow> or_default (field patientData ''medications'') ''None'';
     biomarkers \<leftarrow> or_default (field patientData ''biomarkers'') ''None'';
     Some (prompt_text age gender conditions medications biomarkers)
   }"

definition prompt_limited :: "json \<Rightarrow> string option" where
  "prompt_limited patientData = do {
     age \<leftarrow> to_string (field patientData ''age'');
     gender \<leftarrow> to_string (field patientData ''gender'');
     conditions \<leftarrow> to_string (field patientData ''conditions'');
     medications \<leftarrow> or_default (field patientData ''medications'') ''None'';
     biomarkers \<leftarrow> or_default (field patientData ''biomarkers'') ''None'';
     Some (prompt_limited_text age gender conditions medications biomarkers)
   }"

text \<open>A profile whose five fields are each absent or primitive.\<close>

definition plain_profile :: "json \<Rightarrow> bool" where
  "plain_profile patientData =
     list_all (\<lambda>k. scalar (field patientData k))
       [''age'', ''gender'', ''conditions'', ''medications'', ''biomarkers'']"

section \<open>Requests, the environment and responses\<close>

text \<open>
  \<open>body\<close> is the outcome of \<open>await request.json()\<close>: \<open>None\<close> when it rejects (the
  body is not JSON). A header is \<open>None\<close> when absent.
\<close>

record request =
  x_forwarded_for :: "string option"
  x_real_ip :: "string option"
  body :: "json option"

text \<open>
  What the Groq call yields: \<open>Rejected\<close> when \<open>groq.chat.completions.create\<close> throws
  (timeout, provider rate limit, network error); \<open>Resolved c\<close> when it returns a
  completion, \<open>c\<close> being the string at \<open>choices[0].message.content\<close>, or \<open>None\<close> when
  that path holds no string (no choice, or a \<open>null\<close> content), so that reading
  \<open>.slice\<close> through it throws a \<open>TypeError\<close>.
\<close>

datatype completion = Rejected | Resolved "string option"

text \<open>
  The environment of one request: the variable \<open>GROQ_API_KEY\<close> (\<open>None\<close> when unset),
  whether \<open>import('groq-sdk')\<close> and \<open>new Groq(...)\<close> succeed, and the backend as a
  function of the prompt it is sent.
\<close>

record world =
  GROQ_API_KEY :: "string option"
  sdk_available :: bool
  groq :: "string \<Rightarrow> completion"

definition hasGroqKey :: "world \<Rightarrow> bool" where
  "hasGroqKey w = (case GROQ_API_KEY w of None \<Rightarrow> False | Some k \<Rightarrow> k \<noteq> [])"

record match_result =
  nct_id :: string
  title :: string
  status :: string
  explanation :: string

datatype payload =
    Results string "match_result list"
  | Failure string

record response =
  payload :: payload
  http_status :: nat

text \<open>\<open>NextResponse.json(x)\<close> answers with status 200.\<close>

definition ok :: "payload \<Rightarrow> response" where
  "ok p = \<lparr>payload = p, http_status = 200\<rparr>"

text \<open>The \<open>catch\<close> block of both handlers.\<close>

definition server_error :: response where
  "server_error = \<lparr>payload = Failure ''Failed to process request'', http_status = 500\<rparr>"

text \<open>The demonstration response, for the text that \<open>patientData.conditions\<close> converts
  to.\<close>

definition demo_response :: "string \<Rightarrow> response" where
  "demo_response conditions = ok (Results ''Running in demo mode (no API key configured)''
     [\<lparr>nct_id = ''NCT-DEMO-001'',
       title = ''Demo Trial for '' @ conditions,
       status = ''NEEDS_REVIEW'',
       explanation = ''This is a demo result. Configure Groq API for real matching.''\<rparr>])"

definition analysis_response :: "string \<Rightarrow> response" where
  "analysis_response content = ok (Results ''Analysis complete''
     [\<lparr>nct_id = ''NCT04743505'',
       title = ''Lung Cancer Study'',
       status = ''ELIGIBLE'',
       explanation = take 200 content\<rparr>])"

section \<open>The handler of \<open>app/api/match/route.js\<close>\<close>

text \<open>
  The result is the response and the prompts sent to the backend. A \<open>null\<close> body makes
  the first property read throw, and a field that cannot be converted to a string makes
  the concatenation or the template literal throw, in either branch before any backend
  call; the \<open>catch\<close> block answers both.
\<close>

definition POST :: "world \<Rightarrow> request \<Rightarrow> response \<times> string list" where
  "POST w r =
     (case body r of
        None \<Rightarrow> (server_error, [])
      | Some patientData \<Rightarrow>
          if \<not> hasGroqKey w then
            (if patientData = JNull then (server_error, [])
             else
               (case to_string (field patientData ''conditions'') of
                  None \<Rightarrow> (server_error, [])
                | Some conditions \<Rightarrow> (demo_response conditions, [])))
          else if \<not> sdk_available w then (server_error, [])
          else if patientData = JNull then (server_error, [])
          else
            (case prompt patientData of
               None \<Rightarrow> (server_error, [])
             | Some p \<Rightarrow>
                 (case groq w p of
                    Rejected \<Rightarrow> (server_error, [p])
                  | Resolved None \<Rightarrow> (server_error, [p])
                  | Resolved (Some content) \<Rightarrow> (analysis_response content, [p]))))"

section \<open>The rate-limited handler\<close>

text \<open>
  \<open>userRequests\<close> is a \<open>Map\<close> from the client address to the number of requests
  counted so far; the handler only ever stores \<open>userCount + 1\<close> in it.
\<close>

type_synonym store = "string \<rightharpoonup> nat"

definition MAX_REQUESTS_PER_IP :: nat where
  "MAX_REQUESTS_PER_IP = 10"

text \<open>\<open>h || d\<close> on a header value: an absent or empty header is falsy.\<close>

definition header_or :: "string option \<Rightarrow> string \<Rightarrow> string" where
  "header_or h d = (case h of None \<Rightarrow> d | Some s \<Rightarrow> if s = [] then d else s)"

definition client_ip :: "request \<Rightarrow> string" where
  "client_ip r = header_or (x_forwarded_for r) (header_or (x_real_ip r) ''unknown'')"

text \<open>\<open>userRequests.get(ip) || 0\<close>.\<close>

definition userCount :: "store \<Rightarrow> string \<Rightarrow> nat" where
  "userCount m ip = (case m ip of None \<Rightarrow> 0 | Some c \<Rightarrow> c)"

definition limit_response :: response where
  "limit_response =
     \<lparr>payload = Results
        ''You've reached the free usage limit (10 searches). Please contact for unlimited access.''
        [],
      http_status = 429\<rparr>"

record outcome =
  reply :: response
  userRequests :: store
  prompts :: "string list"

text \<open>
  The handler runs in two segments as far as \<open>userRequests\<close> is concerned. The first,
  up to the first \<open>await\<close>, reads the address and the count and either answers 429 or
  goes on with both captured in local constants.
\<close>

definition POST_limited_check :: "store \<Rightarrow> request \<Rightarrow> response + string \<times> nat" where
  "POST_limited_check m r =
     (let ip = client_ip r; count = userCount m ip in
      if count \<ge> MAX_REQUESTS_PER_IP then Inl limit_response
      else Inr (ip, count))"

text \<open>
  The second segment is the rest of the body, run on the map as it is when the handler
  resumes for the last time: it never reads the map again, and after the backend call
  has returned it stores the captured count plus one, before the content is read for
  the response.
\<close>

definition POST_limited_resume ::
    "world \<Rightarrow> store \<Rightarrow> request \<Rightarrow> string \<Rightarrow> nat \<Rightarrow> outcome" where
  "POST_limited_resume w m r ip count =
     (case body r of
        None \<Rightarrow> \<lparr>reply = server_error, userRequests = m, prompts = []\<rparr>
      | Some patientData \<Rightarrow>
          if \<not> hasGroqKey w then
            (if patientData = JNull
             then \<lparr>reply = server_error, userRequests = m, prompts = []\<rparr>
             else
               (case to_string (field patientData ''conditions'') of
                  None \<Rightarrow> \<lparr>reply = server_error, userRequests = m, prompts = []\<rparr>
                | Some conditions \<Rightarrow>
                    \<lparr>reply = demo_response conditions, userRequests = m, prompts = []\<rparr>))
          else if \<not> sdk_available w
            then \<lparr>reply = server_error, userRequests = m, prompts = []\<rparr>
          else if patientData = JNull
            then \<lparr>reply = server_error, userRequests = m, prompts = []\<rparr>
          else
            (case prompt_limited patientData of
               None \<Rightarrow> \<lparr>reply = server_error, userRequests = m, prompts = []\<rparr>
             | Some p \<Rightarrow>
                 (case groq w p of
                    Rejected \<Rightarrow> \<lparr>reply = server_error, userRequests = m, prompts = [p]\<rparr>
                  | Resolved None \<Rightarrow>
                      \<lparr>reply = server_error, userRequests = m(ip \<mapsto> count + 1),
                       prompts = [p]\<rparr>
                  | Resolved (Some content) \<Rightarrow>
                      \<lparr>reply = analysis_response content,
                       userRequests = m(ip \<mapsto> count + 1), prompts = [p]\<rparr>)))"

text \<open>One request handled with no other request in between.\<close>

definition POST_limited :: "world \<Rightarrow> store \<Rightarrow> request \<Rightarrow> outcome" where
  "POST_limited w m r =
     (case POST_limited_check m r of
        Inl early \<Rightarrow> \<lparr>reply = early, userRequests = m, prompts = []\<rparr>
      | Inr (ip, count) \<Rightarrow> POST_limited_resume w m r ip count)"

text \<open>Requests handled one after the other, each with its own environment.\<close>

fun serve :: "store \<Rightarrow> (world \<times> request) list \<Rightarrow> response list \<times> store" where
  "serve m [] = ([], m)"
| "serve m ((w, r) # rest) =
     (let out = POST_limited w m r;
          later = serve (userRequests out) rest
      in (reply out # fst later, snd later))"

subsection \<open>Requests in flight together\<close>

text \<open>
  JavaScript runs each segment between two \<open>await\<close>s without interruption, and may run
  segments of other requests while one is suspended. \<open>Arrive i\<close> runs the first segment
  of request \<open>i\<close> of a batch, \<open>Complete i\<close> the second. Events that make no sense (an
  index out of the batch, a second arrival, a completion of a request that is not
  suspended) are ignored.
\<close>

datatype event = Arrive nat | Complete nat

record server =
  table :: store
  suspended :: "(nat \<times> string \<times> nat) list"
  replies :: "(nat \<times> response) list"

definition step :: "(world \<times> request) list \<Rightarrow> server \<Rightarrow> event \<Rightarrow> server" where
  "step batch s e =
     (case e of
        Arrive i \<Rightarrow>
          if i \<ge> length batch \<or> i \<in> fst ` set (suspended s) \<or> i \<in> fst ` set (replies s) then s
          else
            (case POST_limited_check (table s) (snd (batch ! i)) of
               Inl early \<Rightarrow> s\<lparr>replies := replies s @ [(i, early)]\<rparr>
             | Inr captured \<Rightarrow> s\<lparr>suspended := suspended s @ [(i, captured)]\<rparr>)
      | Complete i \<Rightarrow>
          if i \<ge> length batch then s
          else
            (case map_of (suspended s) i of
               None \<Rightarrow> s
             | Some (ip, count) \<Rightarrow>
                 (let out = POST_limited_resume (fst (batch ! i)) (table s) (snd (batch ! i))
                              ip count
                  in \<lparr>table = userRequests out,
                      suspended = filter (\<lambda>p. fst p \<noteq> i) (suspended s),
                      replies = replies s @ [(i, reply out)]\<rparr>)))"

definition run :: "(world \<times> request) list \<Rightarrow> store \<Rightarrow> event list \<Rightarrow> server" where
  "run batch m es = foldl (step batch) \<lparr>table = m, suspended = [], replies = []\<rparr> es"

text \<open>A response that carries an analysis, and the requests of an address that were
  answered with one.\<close>

definition analysed :: "response \<Rightarrow> bool" where
  "analysed a =
     (case payload a of
        Results msg ms \<Rightarrow> msg = ''Analysis complete'' \<and> http_status a = 200
      | Failure e \<Rightarrow> False)"

definition served :: "(world \<times> request) list \<Rightarrow> string \<Rightarrow> server \<Rightarrow> nat list" where
  "served batch ip s =
     map fst (filter (\<lambda>(i, a). i < length batch \<and> client_ip (snd (batch ! i)) = ip \<and>
                               analysed a) (replies s))"

text \<open>The same count for requests handled one after the other: \<open>rs\<close> are the responses
  to \<open>batch\<close>, in order.\<close>

definition analysed_for :: "string \<Rightarrow> (world \<times> request) list \<Rightarrow> response list \<Rightarrow> nat" where
  "analysed_for ip batch rs =
     length (filter (\<lambda>((w, r), a). client_ip r = ip \<and> analysed a) (zip batch rs))"

section \<open>The summary of the report\<close>

text \<open>
  \<open>TrialReport\<close> receives the parsed response. \<open>matches\<close> below is \<open>results.matches\<close>,
  \<open>None\<close> when the property is missing; its elements are the match objects. Reading
  \<open>m.status\<close> of a \<open>null\<close> element throws, so the summary is modelled for lists of
  values other than \<open>null\<close>.
\<close>

definition match_json :: "match_result \<Rightarrow> json" where
  "match_json m =
     JObj [(''nct_id'', JStr (nct_id m)), (''title'', JStr (title m)),
           (''status'', JStr (status m)), (''explanation'', JStr (explanation m))]"

text \<open>\<open>m.status === s\<close>.\<close>

definition status_is :: "string \<Rightarrow> json \<Rightarrow> bool" where
  "status_is s m = (field m ''status'' = Some (JStr s))"

definition eligibleCount :: "json list option \<Rightarrow> nat" where
  "eligibleCount matches =
     (case matches of None \<Rightarrow> 0 | Some ms \<Rightarrow> length (filter (status_is ''ELIGIBLE'') ms))"

definition notEligibleCount :: "json list option \<Rightarrow> nat" where
  "notEligibleCount matches =
     (case matches of None \<Rightarrow> 0 | Some ms \<Rightarrow> length (filter (status_is ''NOT_ELIGIBLE'') ms))"

definition reviewCount :: "json list option \<Rightarrow> nat" where
  "reviewCount matches =
     (case matches of None \<Rightarrow> 0 | Some ms \<Rightarrow> length (filter (status_is ''NEEDS_REVIEW'') ms))"

definition totalCount :: "json list option \<Rightarrow> nat" where
  "totalCount matches = (case matches of None \<Rightarrow> 0 | Some ms \<Rightarrow> length ms)"

text \<open>The sentence the report builds around an explanation, before it is cut.\<close>

definition analysis_sentence :: "string \<Rightarrow> bool \<Rightarrow> string \<Rightarrow> string" where
  "analysis_sentence conditions eligible text =
     ''Based on the patient's '' @ conditions @
     '' and biomarkers, this trial appears to be a '' @
     (if eligible then ''good'' else ''potential'') @
     '' match. '' @ text"

text \<open>
  The text the report prints after \<open>Analysis:\<close> for one match; \<open>None\<close> when the
  expression throws (a \<open>null\<close> match or patient, or a value that cannot be converted to
  a string).
\<close>

definition analysis_text :: "json \<Rightarrow> json \<Rightarrow> string option" where
  "analysis_text patient m =
     (if m = JNull then None
      else if truthy (field m ''explanation'') then
        (if patient = JNull then None
         else do {
           conditions \<leftarrow> or_default (field patient ''conditions'') ''condition'';
           text \<leftarrow> to_string (field m ''explanation'');
           Some (take 300
             (analysis_sentence conditions (status_is ''ELIGIBLE'' m) text))
         })
      else Some ''Detailed eligibility analysis requires consultation with the trial coordinator.'')"

section \<open>Sample inputs\<close>

text \<open>The profile of the README's example request, and the same profile without its
  \<open>conditions\<close> and with an age no patient has.\<close>

definition profile_A :: json where
  "profile_A =
     JObj [(''age'', JNum ''55''), (''gender'', JStr ''Male''),
           (''conditions'', JStr ''Non-Small Cell Lung Cancer''),
           (''medications'', JStr ''Carboplatin''),
           (''biomarkers'', JStr ''PD-L1: 60%'')]"

definition profile_D :: json where
  "profile_D =
     JObj [(''age'', JNum ''-5''), (''gender'', JStr ''Male''),
           (''medications'', JStr ''Carboplatin''),
           (''biomarkers'', JStr ''PD-L1: 60%'')]"

definition request_from :: "string \<Rightarrow> json option \<Rightarrow> request" where
  "request_from ip b = \<lparr>x_forwarded_for = Some ip, x_real_ip = None, body = b\<rparr>"

text \<open>An environment without the credential, and one with it whose backend yields \<open>c\<close>
  whatever the prompt.\<close>

definition demo_world :: world where
  "demo_world = \<lparr>GROQ_API_KEY = None, sdk_available = True, groq = (\<lambda>p. Rejected)\<rparr>"

definition live_world :: "completion \<Rightarrow> world" where
  "live_world c = \<lparr>GROQ_API_KEY = Some ''gsk_test'', sdk_available = True, groq = (\<lambda>p. c)\<rparr>"

text \<open>A profile whose \<open>conditions\<close> cannot be converted to a string.\<close>

definition profile_T :: json where
  "profile_T =
     JObj [(''age'', JNum ''55''), (''gender'', JStr ''Male''),
           (''conditions'', JObj [(''toString'', JNum ''1'')])]"

text \<open>A request completes with \<open>content\<close> when the credential is there, the SDK loads, the
  body is a non-null JSON value, the prompt can be built from it and the backend
  returns a completion with that content.\<close>

definition completes :: "world \<Rightarrow> request \<Rightarrow> string \<Rightarrow> bool" where
  "completes w r content =
     (hasGroqKey w \<and> sdk_available w \<and>
      (case body r of
         None \<Rightarrow> False
       | Some patientData \<Rightarrow>
           patientData \<noteq> JNull \<and>
           (case prompt_limited patientData of
              None \<Rightarrow> False
            | Some p \<Rightarrow> groq w p = Resolved (Some content))))"


text \<open>Eleven requests of one address, and a schedule in which all of them arrive before
  the first one completes.\<close>

definition burst :: "(world \<times> request) list" where
  "burst = replicate 11 (live_world (Resolved (Some ''[]'')), request_from ''1.2.3.4'' (Some profile_A))"

definition burst_schedule :: "event list" where
  "burst_schedule = map Arrive [0..<11] @ map Complete [0..<11]"

section \<open>Basic facts about the handlers\<close>

lemma check_denied:
  "MAX_REQUESTS_PER_IP \<le> userCount m (client_ip r) \<Longrightarrow>
   POST_limited_check m r = Inl limit_response"
  by (simp add: POST_limited_check_def Let_def)

lemma check_admitted:
  "userCount m (client_ip r) < MAX_REQUESTS_PER_IP \<Longrightarrow>
   POST_limited_check m r = Inr (client_ip r, userCount m (client_ip r))"
  by (simp add: POST_limited_check_def Let_def)

lemma limited_denied:
  "MAX_REQUESTS_PER_IP \<le> userCount m (client_ip r) \<Longrightarrow>
   POST_limited w m r = \<lparr>reply = limit_response, userRequests = m, prompts = []\<rparr>"
  by (simp add: POST_limited_def check_denied)

lemma limited_admitted:
  "userCount m (client_ip r) < MAX_REQUESTS_PER_IP \<Longrightarrow>
   POST_limited w m r =
     POST_limited_resume w m r (client_ip r) (userCount m (client_ip r))"
  by (simp add: POST_limited_def check_admitted)

lemma POST_unparsable: "body r = None \<Longrightarrow> POST w r = (server_error, [])"
  by (simp add: POST_def)

lemma POST_demo:
  "\<not> hasGroqKey w \<Longrightarrow> body r = Some pd \<Longrightarrow> pd \<noteq> JNull \<Longrightarrow>
   to_string (field pd ''conditions'') = Some c \<Longrightarrow>
   POST w r = (demo_response c, [])"
  by (simp add: POST_def)

lemma POST_live:
  "hasGroqKey w \<Longrightarrow> sdk_available w \<Longrightarrow> body r = Some pd \<Longrightarrow> pd \<noteq> JNull \<Longrightarrow>
   prompt pd = Some p \<Longrightarrow>
   POST w r =
     ((case groq w p of
         Rejected \<Rightarrow> server_error
       | Resolved None \<Rightarrow> server_error
       | Resolved (Some content) \<Rightarrow> analysis_response content),
      [p])"
  by (simp add: POST_def split: completion.splits option.splits)

lemma POST_throws:
  "body r = Some pd \<Longrightarrow> pd \<noteq> JNull \<Longrightarrow>
   (\<not> hasGroqKey w \<and> to_string (field pd ''conditions'') = None) \<or>
   (hasGroqKey w \<and> prompt pd = None) \<Longrightarrow>
   POST w r = (server_error, [])"
  by (auto simp: POST_def)

lemma resume_demo:
  "\<not> hasGroqKey w \<Longrightarrow> body r = Some pd \<Longrightarrow> pd \<noteq> JNull \<Longrightarrow>
   to_string (field pd ''conditions'') = Some c \<Longrightarrow>
   POST_limited_resume w m r ip n =
     \<lparr>reply = demo_response c, userRequests = m, prompts = []\<rparr>"
  by (simp add: POST_limited_resume_def)

lemma resume_live:
  "hasGroqKey w \<Longrightarrow> sdk_available w \<Longrightarrow> body r = Some pd \<Longrightarrow> pd \<noteq> JNull \<Longrightarrow>
   prompt_limited pd = Some p \<Longrightarrow>
   reply (POST_limited_resume w m r ip n) =
     (case groq w p of
         Rejected \<Rightarrow> server_error
       | Resolved None \<Rightarrow> server_error
       | Resolved (Some content) \<Rightarrow> analysis_response content) \<and>
   prompts (POST_limited_resume w m r ip n) = [p]"
  by (simp add: POST_limited_resume_def split: completion.splits option.splits)

lemma resume_rejected:
  "hasGroqKey w \<Longrightarrow> sdk_available w \<Longrightarrow> body r = Some pd \<Longrightarrow> pd \<noteq> JNull \<Longrightarrow>
   prompt_limited pd = Some p \<Longrightarrow> groq w p = Rejected \<Longrightarrow>
   POST_limited_resume w m r ip n =
     \<lparr>reply = server_error, userRequests = m, prompts = [p]\<rparr>"
  by (simp add: POST_limited_resume_def)

lemma resume_completes:
  "completes w r content \<Longrightarrow>
   POST_limited_resume w m r ip n =
     \<lparr>reply = analysis_response content, userRequests = m(ip \<mapsto> n + 1),
      prompts = [the (prompt_limited (the (body r)))]\<rparr>"
  by (auto simp: completes_def POST_limited_resume_def split: option.splits)

lemma limited_completes:
  assumes "completes w r content" "userCount m (client_ip r) < MAX_REQUESTS_PER_IP"
  shows "POST_limited w m r =
     \<lparr>reply = analysis_response content,
      userRequests = m(client_ip r \<mapsto> userCount m (client_ip r) + 1),
      prompts = [the (prompt_limited (the (body r)))]\<rparr>"
  using assms by (simp add: limited_admitted resume_completes)

lemma userCount_upd: "userCount (m(ip \<mapsto> c)) ip = c"
  by (simp add: userCount_def)

subsection \<open>Conversions that cannot throw\<close>

lemma scalar_to_string: "scalar v \<Longrightarrow> \<exists>s. to_string v = Some s"
  by (cases v) (auto simp: scalar_def to_string_def split: json.splits)

lemma scalar_or_default: "scalar v \<Longrightarrow> \<exists>s. or_default v d = Some s"
  by (simp add: or_default_def scalar_to_string)

lemma plain_profile_prompt:
  assumes "plain_profile pd"
  shows "\<exists>p q c. prompt pd = Some p \<and> prompt_limited pd = Some q \<and>
           to_string (field pd ''conditions'') = Some c"
proof -
  from assms have s: "scalar (field pd ''age'')" "scalar (field pd ''gender'')"
    "scalar (field pd ''conditions'')" "scalar (field pd ''medications'')"
    "scalar (field pd ''biomarkers'')"
    by (simp_all add: plain_profile_def)
  from s(1) obtain a where a: "to_string (field pd ''age'') = Some a"
    using scalar_to_string by blast
  from s(2) obtain g where g: "to_string (field pd ''gender'') = Some g"
    using scalar_to_string by blast
  from s(3) obtain c where c: "to_string (field pd ''conditions'') = Some c"
    using scalar_to_string by blast
  from s(4) obtain md where md: "or_default (field pd ''medications'') ''None'' = Some md"
    using scalar_or_default by blast
  from s(5) obtain b where b: "or_default (field pd ''biomarkers'') ''None'' = Some b"
    using scalar_or_default by blast
  have "prompt pd = Some (prompt_text a g c md b)"
    by (simp add: prompt_def a g c md b)
  moreover have "prompt_limited pd = Some (prompt_limited_text a g c md b)"
    by (simp add: prompt_limited_def a g c md b)
  ultimately show ?thesis using c by blast
qed

lemma own_toString_throws:
  "''toString'' \<in> fst ` set kv \<Longrightarrow> to_string (Some (JObj kv)) = None"
  by (simp add: to_string_def)

subsection \<open>The sample inputs\<close>

lemma hasGroqKey_live [simp]: "hasGroqKey (live_world c)"
  by (simp add: hasGroqKey_def live_world_def)

lemma sdk_live [simp]: "sdk_available (live_world c)"
  by (simp add: live_world_def)

lemma groq_live [simp]: "groq (live_world c) p = c"
  by (simp add: live_world_def)

lemma hasGroqKey_demo [simp]: "\<not> hasGroqKey demo_world"
  by (simp add: hasGroqKey_def demo_world_def)

lemma body_request_from [simp]: "body (request_from ip b) = b"
  by (simp add: request_from_def)

lemma client_ip_request_from [simp]: "ip \<noteq> [] \<Longrightarrow> client_ip (request_from ip b) = ip"
  by (simp add: request_from_def client_ip_def header_or_def)

lemma profile_A_not_null [simp]: "profile_A \<noteq> JNull"
  by (simp add: profile_A_def)

lemma profile_D_not_null [simp]: "profile_D \<noteq> JNull"
  by (simp add: profile_D_def)

lemma userCount_empty [simp]: "userCount Map.empty ip = 0"
  by (simp add: userCount_def)

lemma profile_T_not_null [simp]: "profile_T \<noteq> JNull"
  by (simp add: profile_T_def)

lemma prompt_profile_A:
  "prompt profile_A =
     Some (prompt_text ''55'' ''Male'' ''Non-Small Cell Lung Cancer'' ''Carboplatin'' ''PD-L1: 60%'')"
  by (simp add: prompt_def profile_A_def field_def to_string_def or_default_def truthy_def)

lemma prompt_limited_profile_A:
  "prompt_limited profile_A =
     Some (prompt_limited_text ''55'' ''Male'' ''Non-Small Cell Lung Cancer'' ''Carboplatin''
       ''PD-L1: 60%'')"
  by (simp add: prompt_limited_def profile_A_def field_def to_string_def or_default_def
      truthy_def)

lemma conditions_profile_A:
  "to_string (field profile_A ''conditions'') = Some ''Non-Small Cell Lung Cancer''"
  by (simp add: profile_A_def field_def to_string_def)

lemma prompt_profile_D:
  "prompt profile_D =
     Some (prompt_text ''-5'' ''Male'' ''undefined'' ''Carboplatin'' ''PD-L1: 60%'')"
  by (simp add: prompt_def profile_D_def field_def to_string_def or_default_def truthy_def)

lemma prompt_limited_profile_D:
  "prompt_limited profile_D =
     Some (prompt_limited_text ''-5'' ''Male'' ''undefined'' ''Carboplatin'' ''PD-L1: 60%'')"
  by (simp add: prompt_limited_def profile_D_def field_def to_string_def or_default_def
      truthy_def)

lemma conditions_profile_D: "to_string (field profile_D ''conditions'') = Some ''undefined''"
  by (simp add: profile_D_def field_def to_string_def)

lemma plain_profile_D: "plain_profile profile_D"
  by (simp add: plain_profile_def profile_D_def field_def scalar_def)

lemma conditions_profile_T: "to_string (field profile_T ''conditions'') = None"
  by (simp add: profile_T_def field_def to_string_def)

lemma prompt_profile_T: "prompt profile_T = None \<and> prompt_limited profile_T = None"
  by (simp add: prompt_def prompt_limited_def profile_T_def field_def to_string_def)

subsection \<open>Requests one after the other\<close>

lemma serve_append:
  "serve m (xs @ ys) =
     (fst (serve m xs) @ fst (serve (snd (serve m xs)) ys), snd (serve (snd (serve m xs)) ys))"
  by (induction xs arbitrary: m) (auto simp: Let_def)

lemma serve_completes:
  "list_all2 (\<lambda>(w, r) c. client_ip r = ip \<and> completes w r c) first cs \<Longrightarrow>
   userCount m ip + length first \<le> MAX_REQUESTS_PER_IP \<Longrightarrow>
   fst (serve m first) = map analysis_response cs \<and>
   userCount (snd (serve m first)) ip = userCount m ip + length first"
proof (induction first arbitrary: m cs)
  case Nil
  then show ?case by simp
next
  case (Cons a first)
  obtain w r where a: "a = (w, r)" by (cases a)
  from Cons.prems(1) obtain c cs' where cs: "cs = c # cs'"
    and hd: "client_ip r = ip" "completes w r c"
    and tl: "list_all2 (\<lambda>(w, r) c. client_ip r = ip \<and> completes w r c) first cs'"
    by (auto simp: a list_all2_Cons1)
  from Cons.prems(2) have lt: "userCount m (client_ip r) < MAX_REQUESTS_PER_IP"
    by (simp add: hd)
  let ?m' = "m(ip \<mapsto> userCount m ip + 1)"
  have out: "POST_limited w m r =
     \<lparr>reply = analysis_response c, userRequests = ?m',
      prompts = [the (prompt_limited (the (body r)))]\<rparr>"
    using limited_completes [OF hd(2) lt] by (simp add: hd)
  have "userCount ?m' ip + length first \<le> MAX_REQUESTS_PER_IP"
    using Cons.prems(2) by (simp add: userCount_upd)
  note ih = Cons.IH [OF tl this]
  have ih1: "fst (serve ?m' first) = map analysis_response cs'"
    by (rule ih [THEN conjunct1])
  have ih2: "userCount (snd (serve ?m' first)) ip = userCount m ip + 1 + length first"
    unfolding ih [THEN conjunct2] userCount_upd ..
  show ?case
    using ih1 ih2 by (simp add: a cs out Let_def)
qed

lemma serve_denied:
  "\<forall>(w, r) \<in> set later. client_ip r = ip \<Longrightarrow>
   MAX_REQUESTS_PER_IP \<le> userCount m ip \<Longrightarrow>
   serve m later = (replicate (length later) limit_response, m)"
proof (induction later)
  case Nil
  then show ?case by simp
next
  case (Cons a later)
  obtain w r where a: "a = (w, r)" by (cases a)
  from Cons.prems have ip: "client_ip r = ip" by (simp add: a)
  with Cons.prems(2) have "POST_limited w m r =
      \<lparr>reply = limit_response, userRequests = m, prompts = []\<rparr>"
    by (simp add: limited_denied)
  moreover from Cons have "serve m later = (replicate (length later) limit_response, m)"
    by simp
  ultimately show ?case by (simp add: a)
qed

lemma ten_served:
  "userCount (snd (serve Map.empty
      (replicate 10 (live_world (Resolved (Some ''[]'')), request_from ''1.2.3.4'' (Some profile_A)))))
     ''1.2.3.4'' = 10"
  by code_simp

text \<open>Handled one after the other, the requests of an address that are answered with an
  analysis never outnumber what is left of its quota.\<close>

lemma count_step:
  "userCount (userRequests (POST_limited w m r)) ip = userCount m ip \<or>
   (client_ip r = ip \<and> userCount m ip < MAX_REQUESTS_PER_IP \<and>
    userCount (userRequests (POST_limited w m r)) ip = userCount m ip + 1)"
  by (auto simp: POST_limited_def POST_limited_check_def POST_limited_resume_def Let_def
      userCount_def split: option.splits completion.splits)

lemma analysed_counts:
  "analysed (reply (POST_limited w m r)) \<Longrightarrow>
   userCount m (client_ip r) < MAX_REQUESTS_PER_IP \<and>
   userCount (userRequests (POST_limited w m r)) (client_ip r) = userCount m (client_ip r) + 1"
  by (auto simp: POST_limited_def POST_limited_check_def POST_limited_resume_def Let_def
      analysed_def limit_response_def server_error_def demo_response_def ok_def userCount_def
      split: option.splits completion.splits if_splits)

lemma sequential_quota:
  "userCount m ip \<le> MAX_REQUESTS_PER_IP \<Longrightarrow>
   analysed_for ip batch (fst (serve m batch)) + userCount m ip \<le> MAX_REQUESTS_PER_IP"
proof (induction batch arbitrary: m)
  case Nil
  then show ?case by (simp add: analysed_for_def)
next
  case (Cons a batch)
  obtain w r where a: "a = (w, r)" by (cases a)
  let ?out = "POST_limited w m r"
  let ?m' = "userRequests ?out"
  have bound: "userCount ?m' ip \<le> MAX_REQUESTS_PER_IP"
    using count_step [of w m r ip] Cons.prems by auto
  have ih: "analysed_for ip batch (fst (serve ?m' batch)) + userCount ?m' ip
      \<le> MAX_REQUESTS_PER_IP"
    by (rule Cons.IH [OF bound])
  have mono: "userCount m ip \<le> userCount ?m' ip"
    using count_step [of w m r ip] by auto
  have unfold: "analysed_for ip (a # batch) (fst (serve m (a # batch))) =
      (if client_ip r = ip \<and> analysed (reply ?out) then 1 else 0) +
      analysed_for ip batch (fst (serve ?m' batch))"
    by (simp add: a analysed_for_def Let_def)
  show ?case
  proof (cases "client_ip r = ip \<and> analysed (reply ?out)")
    case True
    with analysed_counts [of w m r] have "userCount ?m' ip = userCount m ip + 1" by simp
    with ih True show ?thesis unfolding unfold by auto
  next
    case False
    with ih mono show ?thesis unfolding unfold by auto
  qed
qed

subsection \<open>The shapes of a reply\<close>

lemma explanation_demo: "payload (demo_response c) = Results msg ms \<Longrightarrow> x \<in> set ms \<Longrightarrow>
   length (explanation x) \<le> 200"
  by (auto simp: demo_response_def ok_def)

lemma explanation_analysis:
  "payload (analysis_response c) = Results msg ms \<Longrightarrow> x \<in> set ms \<Longrightarrow>
   explanation x = take 200 c"
  by (auto simp: analysis_response_def ok_def)

lemma POST_reply_cases:
  "fst (POST w r) = server_error \<or>
   (\<exists>c. fst (POST w r) = demo_response c) \<or>
   (\<exists>c. fst (POST w r) = analysis_response c)"
  by (auto simp: POST_def split: option.splits completion.splits)

lemma POST_limited_reply_cases:
  "reply (POST_limited w m r) = server_error \<or>
   reply (POST_limited w m r) = limit_response \<or>
   (\<exists>c. reply (POST_limited w m r) = demo_response c) \<or>
   (\<exists>c. reply (POST_limited w m r) = analysis_response c)"
  by (auto simp: POST_limited_def POST_limited_check_def POST_limited_resume_def Let_def
      split: option.splits completion.splits)

lemma bounded_reply:
  assumes "a = server_error \<or> a = limit_response \<or> (\<exists>c. a = demo_response c) \<or>
      (\<exists>c. a = analysis_response c)"
    and "payload a = Results msg ms" and "x \<in> set ms"
  shows "length (explanation x) \<le> 200"
  using assms
  by (auto simp: server_error_def limit_response_def dest: explanation_demo explanation_analysis)

lemma analysed_reply:
  assumes "a = server_error \<or> a = limit_response \<or> (\<exists>c. a = demo_response c) \<or>
      (\<exists>c. a = analysis_response c)"
    and "analysed a"
  shows "\<exists>content. a = analysis_response content"
  using assms
  by (auto simp: analysed_def server_error_def limit_response_def demo_response_def ok_def)

lemma analysis_text_bounded: "analysis_text patient j = Some t \<Longrightarrow> length t \<le> 300"
  by (auto simp: analysis_text_def split: if_splits Option.bind_splits)

lemma analysis_text_cut:
  "j \<noteq> JNull \<Longrightarrow> patient \<noteq> JNull \<Longrightarrow> truthy (field j ''explanation'') \<Longrightarrow>
   or_default (field patient ''conditions'') ''condition'' = Some c \<Longrightarrow>
   to_string (field j ''explanation'') = Some e \<Longrightarrow>
   analysis_text patient j = Some (take 300 (analysis_sentence c (status_is ''ELIGIBLE'' j) e))"
  by (simp add: analysis_text_def)

subsection \<open>Counting by status\<close>

lemma status_exclusive:
  "status_is ''ELIGIBLE'' x \<Longrightarrow> \<not> status_is ''NOT_ELIGIBLE'' x \<and> \<not> status_is ''NEEDS_REVIEW'' x"
  "status_is ''NOT_ELIGIBLE'' x \<Longrightarrow> \<not> status_is ''ELIGIBLE'' x \<and> \<not> status_is ''NEEDS_REVIEW'' x"
  "status_is ''NEEDS_REVIEW'' x \<Longrightarrow> \<not> status_is ''ELIGIBLE'' x \<and> \<not> status_is ''NOT_ELIGIBLE'' x"
  by (simp_all add: status_is_def)

lemma filter_counts:
  "\<forall>x \<in> set ms. status_is ''ELIGIBLE'' x \<or> status_is ''NOT_ELIGIBLE'' x \<or>
       status_is ''NEEDS_REVIEW'' x \<Longrightarrow>
   length (filter (status_is ''ELIGIBLE'') ms) + length (filter (status_is ''NOT_ELIGIBLE'') ms) +
     length (filter (status_is ''NEEDS_REVIEW'') ms) = length ms"
proof (induction ms)
  case Nil
  then show ?case by simp
next
  case (Cons x ms)
  then have ih: "length (filter (status_is ''ELIGIBLE'') ms) +
      length (filter (status_is ''NOT_ELIGIBLE'') ms) +
      length (filter (status_is ''NEEDS_REVIEW'') ms) = length ms"
    by simp
  from Cons.prems consider "status_is ''ELIGIBLE'' x" | "status_is ''NOT_ELIGIBLE'' x"
    | "status_is ''NEEDS_REVIEW'' x" by auto
  then show ?case
  proof cases
    case 1
    with status_exclusive(1) [of x]
    have "\<not> status_is ''NOT_ELIGIBLE'' x" "\<not> status_is ''NEEDS_REVIEW'' x" by blast+
    with 1 ih show ?thesis by simp
  next
    case 2
    with status_exclusive(2) [of x]
    have "\<not> status_is ''ELIGIBLE'' x" "\<not> status_is ''NEEDS_REVIEW'' x" by blast+
    with 2 ih show ?thesis by simp
  next
    case 3
    with status_exclusive(3) [of x]
    have "\<not> status_is ''ELIGIBLE'' x" "\<not> status_is ''NOT_ELIGIBLE'' x" by blast+
    with 3 ih show ?thesis by simp
  qed
qed

section \<open>The quota under requests in flight together\<close>

text \<open>
  Claim C1: for every address, the number of requests the rate governor admits never
  exceeds the maximum of 10, also when requests overlap, because the check and the
  increment of the counter are one atomic step.

  The handler reads the count before its first \<open>await\<close> and stores the captured count
  plus one after the backend call has returned, so the check and the increment are two
  steps with other requests in between. In the schedule \<open>burst_schedule\<close>, eleven
  requests of the address 1.2.3.4 arrive while the map is empty and before any of them
  completes: each reads the count 0, all eleven are served with status 200, and each
  completion stores 1. The comment on \<open>MAX_REQUESTS_PER_IP\<close> allows 10 searches per
  address, and that is the bound the handler keeps when requests do not overlap
  (\<open>sequential_quota\<close>).
\<close>

theorem concurrent_requests_exceed_quota:
  "length burst = 11 \<and>
   served burst ''1.2.3.4'' (run burst Map.empty burst_schedule) =
     [0, 1, 2, 3, 4, 5, 6, 7, 8, 9, 10] \<and>
   table (run burst Map.empty burst_schedule) ''1.2.3.4'' = Some 1 \<and>
   MAX_REQUESTS_PER_IP = 10"
  by code_simp

section \<open>A failing backend call\<close>

text \<open>
  Claim C2: when the backend call fails or returns unrecognisable output, the candidate
  gets a match with status \<open>NEEDS_REVIEW\<close> and a generic explanation, and the request
  still answers with matches, never with an error response.

  Neither handler does that. With the backend rejecting the call, both answer the
  request with the error object and status 500; with the backend returning the text
  \<open>???\<close>, the match has status \<open>ELIGIBLE\<close>.
\<close>

theorem backend_failure_counterexample:
  "fst (POST (live_world Rejected) (request_from ''1.2.3.4'' (Some profile_A))) =
     \<lparr>payload = Failure ''Failed to process request'', http_status = 500\<rparr> \<and>
   reply (POST_limited (live_world Rejected) Map.empty
            (request_from ''1.2.3.4'' (Some profile_A))) =
     \<lparr>payload = Failure ''Failed to process request'', http_status = 500\<rparr> \<and>
   fst (POST (live_world (Resolved (Some ''???''))) (request_from ''1.2.3.4'' (Some profile_A))) =
     \<lparr>payload = Results ''Analysis complete''
        [\<lparr>nct_id = ''NCT04743505'', title = ''Lung Cancer Study'', status = ''ELIGIBLE'',
          explanation = ''???''\<rparr>],
      http_status = 200\<rparr>"
  by (simp add: POST_live [OF _ _ _ _ prompt_profile_A] limited_admitted
      resume_live [OF _ _ _ _ prompt_limited_profile_A] MAX_REQUESTS_PER_IP_def
      server_error_def analysis_response_def ok_def)

text \<open>
  Claim C2 as the code has it: for a request with a JSON body other than \<open>null\<close> from
  which the prompt can be built, made with the credential present and the SDK loaded, a
  backend call that throws makes the handler answer the whole request with
  \<open>{error: 'Failed to process request'}\<close> and status 500, after the one prompt was
  sent; and whatever text the backend returns, the one match of the response has status
  \<open>ELIGIBLE\<close> and the first 200 characters of the text as its explanation. Both hold
  for the handler of \<open>route.js\<close> and, for an admitted request, for the rate-limited
  one, which leaves the counter as it was when the call throws.
\<close>

theorem backend_failure_fails_request:
  assumes "hasGroqKey w" "sdk_available w" "body r = Some pd" "pd \<noteq> JNull"
  shows "(prompt pd = Some p \<and> groq w p = Rejected \<longrightarrow>
            POST w r =
              (\<lparr>payload = Failure ''Failed to process request'', http_status = 500\<rparr>, [p])) \<and>
         (prompt_limited pd = Some q \<and> groq w q = Rejected \<and>
          userCount m (client_ip r) < MAX_REQUESTS_PER_IP \<longrightarrow>
            POST_limited w m r =
              \<lparr>reply = \<lparr>payload = Failure ''Failed to process request'', http_status = 500\<rparr>,
               userRequests = m, prompts = [q]\<rparr>) \<and>
         (prompt pd = Some p \<and> groq w p = Resolved (Some text) \<longrightarrow>
            POST w r =
              (\<lparr>payload = Results ''Analysis complete''
                  [\<lparr>nct_id = ''NCT04743505'', title = ''Lung Cancer Study'',
                    status = ''ELIGIBLE'', explanation = take 200 text\<rparr>],
                http_status = 200\<rparr>, [p])) \<and>
         (prompt_limited pd = Some q \<and> groq w q = Resolved (Some text) \<and>
          userCount m (client_ip r) < MAX_REQUESTS_PER_IP \<longrightarrow>
            reply (POST_limited w m r) =
              \<lparr>payload = Results ''Analysis complete''
                 [\<lparr>nct_id = ''NCT04743505'', title = ''Lung Cancer Study'',
                   status = ''ELIGIBLE'', explanation = take 200 text\<rparr>],
               http_status = 200\<rparr> \<and>
            prompts (POST_limited w m r) = [q])"
proof -
  have a: "POST w r = (server_error, [p])" if "prompt pd = Some p" "groq w p = Rejected"
    using POST_live [OF assms that(1)] that(2) by simp
  have b: "POST_limited w m r = \<lparr>reply = server_error, userRequests = m, prompts = [q]\<rparr>"
    if "prompt_limited pd = Some q" "groq w q = Rejected"
      "userCount m (client_ip r) < MAX_REQUESTS_PER_IP"
    using resume_rejected [OF assms that(1,2)] that(3) by (simp add: limited_admitted)
  have c: "POST w r = (analysis_response text, [p])"
    if "prompt pd = Some p" "groq w p = Resolved (Some text)"
    using POST_live [OF assms that(1)] that(2) by simp
  have d: "reply (POST_limited w m r) = analysis_response text \<and>
      prompts (POST_limited w m r) = [q]"
    if "prompt_limited pd = Some q" "groq w q = Resolved (Some text)"
      "userCount m (client_ip r) < MAX_REQUESTS_PER_IP"
    using resume_live [OF assms that(1)] that(2,3) by (simp add: limited_admitted)
  from a b c d show ?thesis
    unfolding server_error_def analysis_response_def ok_def by blast
qed

theorem backend_failure_fails_request_witness:
  "POST (live_world Rejected) (request_from ''1.2.3.4'' (Some profile_A)) =
     (\<lparr>payload = Failure ''Failed to process request'', http_status = 500\<rparr>,
      [prompt_text ''55'' ''Male'' ''Non-Small Cell Lung Cancer'' ''Carboplatin'' ''PD-L1: 60%'']) \<and>
   POST_limited (live_world Rejected) Map.empty (request_from ''1.2.3.4'' (Some profile_A)) =
     \<lparr>reply = \<lparr>payload = Failure ''Failed to process request'', http_status = 500\<rparr>,
      userRequests = Map.empty,
      prompts = [prompt_limited_text ''55'' ''Male'' ''Non-Small Cell Lung Cancer'' ''Carboplatin'' ''PD-L1: 60%'']\<rparr> \<and>
   fst (POST (live_world (Resolved (Some ''???''))) (request_from ''1.2.3.4'' (Some profile_A))) =
     \<lparr>payload = Results ''Analysis complete''
        [\<lparr>nct_id = ''NCT04743505'', title = ''Lung Cancer Study'', status = ''ELIGIBLE'',
          explanation = ''???''\<rparr>],
      http_status = 200\<rparr> \<and>
   reply (POST_limited (live_world (Resolved (Some ''???''))) Map.empty
       (request_from ''1.2.3.4'' (Some profile_A))) =
     \<lparr>payload = Results ''Analysis complete''
        [\<lparr>nct_id = ''NCT04743505'', title = ''Lung Cancer Study'', status = ''ELIGIBLE'',
          explanation = ''???''\<rparr>],
      http_status = 200\<rparr>"
  using backend_failure_fails_request [of "live_world Rejected"
      "request_from ''1.2.3.4'' (Some profile_A)" profile_A
      "prompt_text ''55'' ''Male'' ''Non-Small Cell Lung Cancer'' ''Carboplatin'' ''PD-L1: 60%''" "prompt_limited_text ''55'' ''Male'' ''Non-Small Cell Lung Cancer'' ''Carboplatin'' ''PD-L1: 60%''" Map.empty]
    backend_failure_fails_request [of "live_world (Resolved (Some ''???''))"
      "request_from ''1.2.3.4'' (Some profile_A)" profile_A
      "prompt_text ''55'' ''Male'' ''Non-Small Cell Lung Cancer'' ''Carboplatin'' ''PD-L1: 60%''" "prompt_limited_text ''55'' ''Male'' ''Non-Small Cell Lung Cancer'' ''Carboplatin'' ''PD-L1: 60%''" Map.empty "''???''"]
  by (simp add: MAX_REQUESTS_PER_IP_def prompt_profile_A prompt_limited_profile_A)

section \<open>Ten requests, then denial\<close>

text \<open>
  Claim C3: an address whose requests each complete is admitted ten times, the eleventh
  request is denied with empty matches, and at the start of the next window the count is
  zero again, so that the address is admitted again.

  The handler reads no clock and never removes or lowers an entry of \<open>userRequests\<close>.
  Of twelve requests the last two are denied, and in the map that ten served requests
  leave behind no request of the address, in whatever environment, gets any other answer
  than the denial.
\<close>

theorem no_window_counterexample:
  "fst (serve Map.empty
      (replicate 12 (live_world (Resolved (Some ''[]'')), request_from ''1.2.3.4'' (Some profile_A)))) =
     replicate 10 (analysis_response ''[]'') @ replicate 2 limit_response \<and>
   \<not> (\<exists>w r. client_ip r = ''1.2.3.4'' \<and>
        reply (POST_limited w
          (snd (serve Map.empty
             (replicate 10 (live_world (Resolved (Some ''[]'')),
                            request_from ''1.2.3.4'' (Some profile_A))))) r) \<noteq> limit_response)"
proof -
  have a: "fst (serve Map.empty
      (replicate 12 (live_world (Resolved (Some ''[]'')), request_from ''1.2.3.4'' (Some profile_A)))) =
     replicate 10 (analysis_response ''[]'') @ replicate 2 limit_response"
    by code_simp
  have "MAX_REQUESTS_PER_IP \<le> userCount (snd (serve Map.empty
      (replicate 10 (live_world (Resolved (Some ''[]'')), request_from ''1.2.3.4'' (Some profile_A)))))
     ''1.2.3.4''"
    by (simp add: ten_served MAX_REQUESTS_PER_IP_def)
  then have b: "reply (POST_limited w
          (snd (serve Map.empty
             (replicate 10 (live_world (Resolved (Some ''[]'')),
                            request_from ''1.2.3.4'' (Some profile_A))))) r) = limit_response"
    if "client_ip r = ''1.2.3.4''" for w r
    using that by (simp add: limited_denied)
  from a b show ?thesis by blast
qed

text \<open>
  Claim C3 as the code has it: for an address not yet in the map, ten requests that each
  complete (the prompt is built and the backend returns a text for it) are all answered
  with their analysis, and every later request of that address, whatever it holds and
  however many follow, is denied with empty matches; the count stays at ten.
\<close>

theorem quota_sequence:
  assumes first: "list_all2 (\<lambda>(w, r) c. client_ip r = ip \<and> completes w r c) first cs"
    and ten: "length first = MAX_REQUESTS_PER_IP"
    and fresh: "m ip = None"
    and later: "\<forall>(w, r) \<in> set later. client_ip r = ip"
  shows "fst (serve m (first @ later)) =
           map analysis_response cs @ replicate (length later) limit_response \<and>
         userCount (snd (serve m (first @ later))) ip = MAX_REQUESTS_PER_IP"
proof -
  have zero: "userCount m ip = 0" using fresh by (simp add: userCount_def)
  then have "userCount m ip + length first \<le> MAX_REQUESTS_PER_IP" using ten by simp
  from serve_completes [OF first this]
  have a: "fst (serve m first) = map analysis_response cs"
    and b: "userCount (snd (serve m first)) ip = MAX_REQUESTS_PER_IP"
    by (simp_all add: zero ten)
  from b have "MAX_REQUESTS_PER_IP \<le> userCount (snd (serve m first)) ip" by simp
  from serve_denied [OF later this]
  have c: "serve (snd (serve m first)) later =
      (replicate (length later) limit_response, snd (serve m first))" .
  show ?thesis by (simp add: serve_append a b c)
qed

theorem quota_sequence_witness:
  "fst (serve Map.empty
      (replicate 10 (live_world (Resolved (Some ''[]'')), request_from ''1.2.3.4'' (Some profile_A)) @
       [(demo_world, request_from ''1.2.3.4'' (Some profile_D)),
        (live_world Rejected, request_from ''1.2.3.4'' None)])) =
     replicate 10 (analysis_response ''[]'') @ [limit_response, limit_response] \<and>
   userCount (snd (serve Map.empty
      (replicate 10 (live_world (Resolved (Some ''[]'')), request_from ''1.2.3.4'' (Some profile_A)) @
       [(demo_world, request_from ''1.2.3.4'' (Some profile_D)),
        (live_world Rejected, request_from ''1.2.3.4'' None)]))) ''1.2.3.4'' = 10"
proof -
  have h1: "list_all2 (\<lambda>(w, r) c. client_ip r = ''1.2.3.4'' \<and> completes w r c)
      (replicate 10 (live_world (Resolved (Some ''[]'')), request_from ''1.2.3.4'' (Some profile_A)))
      (replicate 10 ''[]'')"
    by code_simp
  have h2: "length (replicate 10 (live_world (Resolved (Some ''[]'')),
      request_from ''1.2.3.4'' (Some profile_A))) = MAX_REQUESTS_PER_IP"
    by (simp add: MAX_REQUESTS_PER_IP_def)
  have h3: "Map.empty ''1.2.3.4'' = (None :: nat option)" by simp
  have h4: "\<forall>(w, r) \<in> set [(demo_world, request_from ''1.2.3.4'' (Some profile_D)),
        (live_world Rejected, request_from ''1.2.3.4'' None)]. client_ip r = ''1.2.3.4''"
    by (simp add: client_ip_def header_or_def request_from_def)
  show ?thesis
    using quota_sequence [OF h1 h2 h3 h4] by (simp add: MAX_REQUESTS_PER_IP_def)
qed

section \<open>A denied request\<close>

text \<open>
  Claim C4: when the rate governor denies a request (the count of its address has reached
  the maximum), no prompt is sent to the backend, and the response has the shape of a
  success response, with an explanatory message and an empty list of matches, and the
  status 429. The map is left as it was.
\<close>

theorem denied_request_does_no_work:
  assumes "MAX_REQUESTS_PER_IP \<le> userCount m (client_ip r)"
  shows "POST_limited w m r =
    \<lparr>reply = \<lparr>payload = Results
         ''You've reached the free usage limit (10 searches). Please contact for unlimited access.''
         [],
       http_status = 429\<rparr>,
     userRequests = m, prompts = []\<rparr>"
  using limited_denied [OF assms] by (simp add: limit_response_def)

theorem denied_request_does_no_work_witness:
  "MAX_REQUESTS_PER_IP \<le> userCount [''1.2.3.4'' \<mapsto> 10] (client_ip (request_from ''1.2.3.4'' (Some profile_A))) \<and>
   POST_limited (live_world (Resolved (Some ''[]''))) [''1.2.3.4'' \<mapsto> 10]
       (request_from ''1.2.3.4'' (Some profile_A)) =
    \<lparr>reply = \<lparr>payload = Results
         ''You've reached the free usage limit (10 searches). Please contact for unlimited access.''
         [],
       http_status = 429\<rparr>,
     userRequests = [''1.2.3.4'' \<mapsto> 10], prompts = []\<rparr>"
proof -
  have h: "MAX_REQUESTS_PER_IP \<le>
      userCount [''1.2.3.4'' \<mapsto> 10] (client_ip (request_from ''1.2.3.4'' (Some profile_A)))"
    by (simp add: MAX_REQUESTS_PER_IP_def userCount_def)
  show ?thesis
    using h denied_request_does_no_work [OF h] by simp
qed

section \<open>Profiles are not validated\<close>

text \<open>
  Claim C5: a request whose profile has no \<open>conditions\<close>, or an age out of range, fails
  with a validation error before any backend call.

  The handlers check neither field. The profile \<open>profile_D\<close> has no \<open>conditions\<close> and the
  age -5; with the credential present its prompt, which reads \<open>Conditions: undefined\<close>,
  is sent to the backend and the response is the analysis with status 200.
\<close>

theorem missing_conditions_counterexample:
  "field profile_D ''conditions'' = None \<and>
   field profile_D ''age'' = Some (JNum ''-5'') \<and>
   POST (live_world (Resolved (Some ''[]''))) (request_from ''1.2.3.4'' (Some profile_D)) =
     (\<lparr>payload = Results ''Analysis complete''
         [\<lparr>nct_id = ''NCT04743505'', title = ''Lung Cancer Study'', status = ''ELIGIBLE'',
           explanation = ''[]''\<rparr>],
       http_status = 200\<rparr>,
      [prompt_text ''-5'' ''Male'' ''undefined'' ''Carboplatin'' ''PD-L1: 60%''])"
  by (simp add: POST_live [OF _ _ _ _ prompt_profile_D] analysis_response_def ok_def)
    (simp add: profile_D_def field_def)

text \<open>
  Claim C5 as the code has it: the handlers do not validate the profile. A request whose
  body is a JSON value other than \<open>null\<close> and whose fields \<open>age\<close>, \<open>gender\<close>,
  \<open>conditions\<close>, \<open>medications\<close> and \<open>biomarkers\<close> are each absent or a primitive value
  (so also one without \<open>conditions\<close>, with the empty text for it, or with any number
  as its age) always gets its prompt built. With the credential present and the SDK
  loaded exactly that one prompt is sent to the backend, and the response depends on the
  backend's answer alone (in the rate-limited handler for an admitted request); without
  the credential the response is the demonstration one.
\<close>

theorem profile_is_not_validated:
  assumes "body r = Some pd" "pd \<noteq> JNull" "plain_profile pd"
  shows "\<exists>p q c.
           prompt pd = Some p \<and> prompt_limited pd = Some q \<and>
           to_string (field pd ''conditions'') = Some c \<and>
           (hasGroqKey w \<and> sdk_available w \<longrightarrow>
              snd (POST w r) = [p] \<and>
              fst (POST w r) =
                (case groq w p of
                 Rejected \<Rightarrow> server_error
               | Resolved None \<Rightarrow> server_error
               | Resolved (Some content) \<Rightarrow> analysis_response content)) \<and>
           (hasGroqKey w \<and> sdk_available w \<and>
            userCount m (client_ip r) < MAX_REQUESTS_PER_IP \<longrightarrow>
              prompts (POST_limited w m r) = [q] \<and>
              reply (POST_limited w m r) =
                (case groq w q of
                 Rejected \<Rightarrow> server_error
               | Resolved None \<Rightarrow> server_error
               | Resolved (Some content) \<Rightarrow> analysis_response content)) \<and>
           (\<not> hasGroqKey w \<longrightarrow> POST w r = (demo_response c, []))"
proof -
  from plain_profile_prompt [OF assms(3)] obtain p q c
    where p: "prompt pd = Some p" and q: "prompt_limited pd = Some q"
      and c: "to_string (field pd ''conditions'') = Some c"
    by blast
  have live: "snd (POST w r) = [p] \<and>
      fst (POST w r) =
        (case groq w p of
                 Rejected \<Rightarrow> server_error
               | Resolved None \<Rightarrow> server_error
               | Resolved (Some content) \<Rightarrow> analysis_response content)"
    if "hasGroqKey w" "sdk_available w"
    using POST_live [OF that assms(1,2) p] by simp
  have limited: "prompts (POST_limited w m r) = [q] \<and>
      reply (POST_limited w m r) =
        (case groq w q of
                 Rejected \<Rightarrow> server_error
               | Resolved None \<Rightarrow> server_error
               | Resolved (Some content) \<Rightarrow> analysis_response content)"
    if "hasGroqKey w" "sdk_available w" "userCount m (client_ip r) < MAX_REQUESTS_PER_IP"
    using resume_live [OF that(1,2) assms(1,2) q] that(3) by (simp add: limited_admitted)
  have demo: "POST w r = (demo_response c, [])" if "\<not> hasGroqKey w"
    using POST_demo [OF that assms(1,2) c] .
  from p q c live limited demo show ?thesis by blast
qed

theorem profile_is_not_validated_witness:
  "plain_profile profile_D \<and>
   field profile_D ''conditions'' = None \<and>
   POST (live_world (Resolved (Some ''[]''))) (request_from ''1.2.3.4'' (Some profile_D)) =
     (analysis_response ''[]'', [prompt_text ''-5'' ''Male'' ''undefined'' ''Carboplatin'' ''PD-L1: 60%'']) \<and>
   prompts (POST_limited (live_world (Resolved (Some ''[]''))) Map.empty
      (request_from ''1.2.3.4'' (Some profile_D))) =
     [prompt_limited_text ''-5'' ''Male'' ''undefined'' ''Carboplatin'' ''PD-L1: 60%''] \<and>
   POST demo_world (request_from ''1.2.3.4'' (Some profile_D)) =
     (demo_response ''undefined'', [])"
proof -
  let ?r = "request_from ''1.2.3.4'' (Some profile_D)"
  let ?w = "live_world (Resolved (Some ''[]''))"
  have b: "body ?r = Some profile_D" by simp
  from profile_is_not_validated [OF b profile_D_not_null plain_profile_D, of ?w Map.empty]
  obtain p q c where p: "prompt profile_D = Some p" and q: "prompt_limited profile_D = Some q"
    and live: "hasGroqKey ?w \<and> sdk_available ?w \<longrightarrow>
      snd (POST ?w ?r) = [p] \<and>
      fst (POST ?w ?r) =
        (case groq ?w p of
           Rejected \<Rightarrow> server_error
         | Resolved None \<Rightarrow> server_error
         | Resolved (Some content) \<Rightarrow> analysis_response content)"
    and limited: "hasGroqKey ?w \<and> sdk_available ?w \<and>
      userCount Map.empty (client_ip ?r) < MAX_REQUESTS_PER_IP \<longrightarrow>
      prompts (POST_limited ?w Map.empty ?r) = [q] \<and>
      reply (POST_limited ?w Map.empty ?r) =
        (case groq ?w q of
           Rejected \<Rightarrow> server_error
         | Resolved None \<Rightarrow> server_error
         | Resolved (Some content) \<Rightarrow> analysis_response content)"
    by blast
  from profile_is_not_validated [OF b profile_D_not_null plain_profile_D, of demo_world Map.empty]
  obtain c where c: "to_string (field profile_D ''conditions'') = Some c"
    and demo: "\<not> hasGroqKey demo_world \<longrightarrow> POST demo_world ?r = (demo_response c, [])"
    by blast
  from p have p': "p = prompt_text ''-5'' ''Male'' ''undefined'' ''Carboplatin'' ''PD-L1: 60%''"
    by (simp add: prompt_profile_D)
  from q have q': "q = prompt_limited_text ''-5'' ''Male'' ''undefined'' ''Carboplatin'' ''PD-L1: 60%''"
    by (simp add: prompt_limited_profile_D)
  from c have c': "c = ''undefined''" by (simp add: conditions_profile_D)
  have f: "field profile_D ''conditions'' = None" by (simp add: profile_D_def field_def)
  have 1: "POST ?w ?r = (analysis_response ''[]'', [p])"
    using live by (simp add: prod_eq_iff)
  have 2: "prompts (POST_limited ?w Map.empty ?r) = [q]"
    using limited by (simp add: MAX_REQUESTS_PER_IP_def)
  have 3: "POST demo_world ?r = (demo_response c, [])"
    using demo by simp
  from plain_profile_D f 1 2 3 show ?thesis
    unfolding p' q' c' by (intro conjI)
qed

section \<open>Demonstration mode\<close>

text \<open>
  Claim C6: every request made while \<open>GROQ_API_KEY\<close> is absent gets the demonstration
  response: no backend call, exactly one placeholder match with status \<open>NEEDS_REVIEW\<close>,
  and a message that names the mode.

  The body is read before the credential is looked at, and the placeholder's title
  converts the profile's \<open>conditions\<close> to a string: a request whose body is not JSON,
  or is \<open>null\<close>, or whose \<open>conditions\<close> is an object with a \<open>toString\<close> key, is answered
  with the error object and status 500 also without the credential.
\<close>

theorem demo_mode_counterexample:
  "\<not> hasGroqKey demo_world \<and>
   POST demo_world (request_from ''1.2.3.4'' None) =
     (\<lparr>payload = Failure ''Failed to process request'', http_status = 500\<rparr>, []) \<and>
   POST demo_world (request_from ''1.2.3.4'' (Some JNull)) =
     (\<lparr>payload = Failure ''Failed to process request'', http_status = 500\<rparr>, []) \<and>
   POST demo_world (request_from ''1.2.3.4'' (Some profile_T)) =
     (\<lparr>payload = Failure ''Failed to process request'', http_status = 500\<rparr>, [])"
  by (simp add: POST_def server_error_def conditions_profile_T)

text \<open>
  Claim C6 as the code has it: every request whose body is a JSON value other than
  \<open>null\<close> and whose \<open>conditions\<close> converts to a string (every value does but an object
  with a \<open>toString\<close> key and an array that holds one), made while \<open>GROQ_API_KEY\<close> is
  absent or empty, gets the demonstration response: the message
  \<open>Running in demo mode (no API key configured)\<close>, exactly one match \<open>NCT-DEMO-001\<close>
  with status \<open>NEEDS_REVIEW\<close>, titled with that string, and no backend call. In the
  rate-limited handler this holds for a request that is admitted, and the map is left
  as it was.
\<close>

theorem demo_mode:
  assumes "\<not> hasGroqKey w" "body r = Some pd" "pd \<noteq> JNull"
    and "to_string (field pd ''conditions'') = Some c"
  shows "POST w r =
           (\<lparr>payload = Results ''Running in demo mode (no API key configured)''
               [\<lparr>nct_id = ''NCT-DEMO-001'',
                 title = ''Demo Trial for '' @ c,
                 status = ''NEEDS_REVIEW'',
                 explanation = ''This is a demo result. Configure Groq API for real matching.''\<rparr>],
             http_status = 200\<rparr>, []) \<and>
         (userCount m (client_ip r) < MAX_REQUESTS_PER_IP \<longrightarrow>
            POST_limited w m r = \<lparr>reply = fst (POST w r), userRequests = m, prompts = []\<rparr>)"
  using assms by (simp add: POST_demo limited_admitted resume_demo demo_response_def ok_def)

theorem demo_mode_witness:
  "\<not> hasGroqKey demo_world \<and>
   to_string (field profile_A ''conditions'') = Some ''Non-Small Cell Lung Cancer'' \<and>
   POST demo_world (request_from ''1.2.3.4'' (Some profile_A)) =
           (\<lparr>payload = Results ''Running in demo mode (no API key configured)''
               [\<lparr>nct_id = ''NCT-DEMO-001'',
                 title = ''Demo Trial for Non-Small Cell Lung Cancer'',
                 status = ''NEEDS_REVIEW'',
                 explanation = ''This is a demo result. Configure Groq API for real matching.''\<rparr>],
             http_status = 200\<rparr>, []) \<and>
   userRequests (POST_limited demo_world Map.empty (request_from ''1.2.3.4'' (Some profile_A))) =
     Map.empty \<and>
   prompts (POST_limited demo_world Map.empty (request_from ''1.2.3.4'' (Some profile_A))) = []"
  using demo_mode [of demo_world "request_from ''1.2.3.4'' (Some profile_A)" profile_A
      "''Non-Small Cell Lung Cancer''" Map.empty]
  by (simp add: MAX_REQUESTS_PER_IP_def conditions_profile_A)

section \<open>The matches of a successful response\<close>

text \<open>
  Claim C7: every trial of the corpus is retrieved, classified and present in the
  response; with the two sample trials, both appear as matches.

  The sample trials are \<open>NCT04743505\<close> and \<open>NCT05745350\<close>; the successful response
  for the README's profile holds the single match \<open>NCT04743505\<close>.
\<close>

theorem both_trials_counterexample:
  "map trial_nct_id SAMPLE_TRIALS = [''NCT04743505'', ''NCT05745350''] \<and>
   fst (POST (live_world (Resolved (Some ''[]''))) (request_from ''1.2.3.4'' (Some profile_A))) =
     \<lparr>payload = Results ''Analysis complete''
        [\<lparr>nct_id = ''NCT04743505'', title = ''Lung Cancer Study'', status = ''ELIGIBLE'',
          explanation = ''[]''\<rparr>],
      http_status = 200\<rparr>"
  by (simp add: POST_live [OF _ _ _ _ prompt_profile_A] analysis_response_def ok_def
      SAMPLE_TRIALS_def)

text \<open>
  Claim C7 as the code has it: every response that carries an analysis, from either
  handler and whatever the request was, holds exactly one match, the fixed one for
  \<open>NCT04743505\<close> with the title \<open>Lung Cancer Study\<close> and status \<open>ELIGIBLE\<close>, whose
  explanation is the first 200 characters of a text; the second sample trial never
  appears. A request gets that response, with the backend's text, when its prompt can be
  built, the credential is present, the SDK loads and the backend returns a text.
\<close>

theorem one_fixed_match:
  "(analysed (fst (POST w r)) \<longrightarrow>
      (\<exists>content. fst (POST w r) =
         \<lparr>payload = Results ''Analysis complete''
            [\<lparr>nct_id = ''NCT04743505'', title = ''Lung Cancer Study'',
              status = ''ELIGIBLE'', explanation = take 200 content\<rparr>],
          http_status = 200\<rparr>)) \<and>
   (analysed (reply (POST_limited w m r)) \<longrightarrow>
      (\<exists>content. reply (POST_limited w m r) =
         \<lparr>payload = Results ''Analysis complete''
            [\<lparr>nct_id = ''NCT04743505'', title = ''Lung Cancer Study'',
              status = ''ELIGIBLE'', explanation = take 200 content\<rparr>],
          http_status = 200\<rparr>)) \<and>
   (hasGroqKey w \<and> sdk_available w \<and> body r = Some pd \<and> pd \<noteq> JNull \<and>
    prompt pd = Some p \<and> groq w p = Resolved (Some text) \<longrightarrow>
      fst (POST w r) =
         \<lparr>payload = Results ''Analysis complete''
            [\<lparr>nct_id = ''NCT04743505'', title = ''Lung Cancer Study'',
              status = ''ELIGIBLE'', explanation = take 200 text\<rparr>],
          http_status = 200\<rparr>) \<and>
   (hasGroqKey w \<and> sdk_available w \<and> body r = Some pd \<and> pd \<noteq> JNull \<and>
    prompt_limited pd = Some q \<and> groq w q = Resolved (Some text) \<and>
    userCount m (client_ip r) < MAX_REQUESTS_PER_IP \<longrightarrow>
      reply (POST_limited w m r) =
         \<lparr>payload = Results ''Analysis complete''
            [\<lparr>nct_id = ''NCT04743505'', title = ''Lung Cancer Study'',
              status = ''ELIGIBLE'', explanation = take 200 text\<rparr>],
          http_status = 200\<rparr>)"
proof -
  have a: "\<exists>content. fst (POST w r) = analysis_response content"
    if "analysed (fst (POST w r))"
    using analysed_reply [OF _ that] POST_reply_cases [of w r] by blast
  have b: "\<exists>content. reply (POST_limited w m r) = analysis_response content"
    if "analysed (reply (POST_limited w m r))"
    using analysed_reply [OF _ that] POST_limited_reply_cases [of w m r] by blast
  have c: "fst (POST w r) = analysis_response text"
    if "hasGroqKey w" "sdk_available w" "body r = Some pd" "pd \<noteq> JNull"
      "prompt pd = Some p" "groq w p = Resolved (Some text)"
    using POST_live [OF that(1-5)] that(6) by simp
  have d: "reply (POST_limited w m r) = analysis_response text"
    if "hasGroqKey w" "sdk_available w" "body r = Some pd" "pd \<noteq> JNull"
      "prompt_limited pd = Some q" "groq w q = Resolved (Some text)"
      "userCount m (client_ip r) < MAX_REQUESTS_PER_IP"
    using resume_live [OF that(1-5)] that(6,7) by (simp add: limited_admitted)
  from a b c d show ?thesis
    unfolding analysis_response_def ok_def by blast
qed

theorem one_fixed_match_witness:
  "analysed (fst (POST (live_world (Resolved (Some ''[]'')))
       (request_from ''1.2.3.4'' (Some profile_A)))) \<and>
   fst (POST (live_world (Resolved (Some ''[]''))) (request_from ''1.2.3.4'' (Some profile_A))) =
     \<lparr>payload = Results ''Analysis complete''
        [\<lparr>nct_id = ''NCT04743505'', title = ''Lung Cancer Study'',
          status = ''ELIGIBLE'', explanation = ''[]''\<rparr>],
      http_status = 200\<rparr> \<and>
   reply (POST_limited (live_world (Resolved (Some ''[]''))) Map.empty
       (request_from ''1.2.3.4'' (Some profile_A))) =
     \<lparr>payload = Results ''Analysis complete''
        [\<lparr>nct_id = ''NCT04743505'', title = ''Lung Cancer Study'',
          status = ''ELIGIBLE'', explanation = ''[]''\<rparr>],
      http_status = 200\<rparr>"
proof -
  let ?w = "live_world (Resolved (Some ''[]''))"
  let ?r = "request_from ''1.2.3.4'' (Some profile_A)"
  note t = one_fixed_match [of ?w ?r Map.empty profile_A
      "prompt_text ''55'' ''Male'' ''Non-Small Cell Lung Cancer'' ''Carboplatin'' ''PD-L1: 60%''" "''[]''" "prompt_limited_text ''55'' ''Male'' ''Non-Small Cell Lung Cancer'' ''Carboplatin'' ''PD-L1: 60%''"]
  have 1: "fst (POST ?w ?r) =
     \<lparr>payload = Results ''Analysis complete''
        [\<lparr>nct_id = ''NCT04743505'', title = ''Lung Cancer Study'',
          status = ''ELIGIBLE'', explanation = ''[]''\<rparr>],
      http_status = 200\<rparr>"
    using t by (simp add: prompt_profile_A)
  have 2: "reply (POST_limited ?w Map.empty ?r) =
     \<lparr>payload = Results ''Analysis complete''
        [\<lparr>nct_id = ''NCT04743505'', title = ''Lung Cancer Study'',
          status = ''ELIGIBLE'', explanation = ''[]''\<rparr>],
      http_status = 200\<rparr>"
    using t by (simp add: prompt_limited_profile_A MAX_REQUESTS_PER_IP_def)
  have 3: "analysed (fst (POST ?w ?r))"
    unfolding 1 by (simp add: analysed_def)
  from 3 1 2 show ?thesis by (intro conjI)
qed

section \<open>The length of an explanation\<close>

text \<open>
  Claim C8: the explanation of every match is cut to at most 300 characters, however long
  the backend's text is. Every explanation in a response of either handler is at most
  300 characters long; the explanation of an analysis is the first 200 characters of the
  backend's text; and the sentence the report builds around an explanation is cut to
  its first 300 characters.
\<close>

theorem explanation_is_bounded:
  "(payload (fst (POST w r)) = Results msg ms \<and> x \<in> set ms \<longrightarrow>
      length (explanation x) \<le> 300) \<and>
   (payload (reply (POST_limited w m r)) = Results msg ms \<and> x \<in> set ms \<longrightarrow>
      length (explanation x) \<le> 300) \<and>
   (hasGroqKey w \<and> sdk_available w \<and> body r = Some pd \<and> pd \<noteq> JNull \<and>
    prompt pd = Some p \<and> groq w p = Resolved (Some content) \<longrightarrow>
      payload (fst (POST w r)) = Results ''Analysis complete''
        [\<lparr>nct_id = ''NCT04743505'', title = ''Lung Cancer Study'',
          status = ''ELIGIBLE'', explanation = take 200 content\<rparr>]) \<and>
   (hasGroqKey w \<and> sdk_available w \<and> body r = Some pd \<and> pd \<noteq> JNull \<and>
    prompt_limited pd = Some q \<and> groq w q = Resolved (Some content) \<and>
    userCount m (client_ip r) < MAX_REQUESTS_PER_IP \<longrightarrow>
      payload (reply (POST_limited w m r)) = Results ''Analysis complete''
        [\<lparr>nct_id = ''NCT04743505'', title = ''Lung Cancer Study'',
          status = ''ELIGIBLE'', explanation = take 200 content\<rparr>]) \<and>
   (analysis_text patient j = Some t \<longrightarrow> length t \<le> 300) \<and>
   (j \<noteq> JNull \<and> patient \<noteq> JNull \<and> truthy (field j ''explanation'') \<and>
    or_default (field patient ''conditions'') ''condition'' = Some c \<and>
    to_string (field j ''explanation'') = Some e \<longrightarrow>
      analysis_text patient j =
        Some (take 300 (analysis_sentence c (status_is ''ELIGIBLE'' j) e)))"
proof -
  have a: "length (explanation x) \<le> 300"
    if "payload (fst (POST w r)) = Results msg ms" "x \<in> set ms"
    using bounded_reply [OF _ that] POST_reply_cases [of w r] by fastforce
  have b: "length (explanation x) \<le> 300"
    if "payload (reply (POST_limited w m r)) = Results msg ms" "x \<in> set ms"
    using bounded_reply [OF _ that] POST_limited_reply_cases [of w m r] by fastforce
  have c: "payload (fst (POST w r)) = Results ''Analysis complete''
        [\<lparr>nct_id = ''NCT04743505'', title = ''Lung Cancer Study'',
          status = ''ELIGIBLE'', explanation = take 200 content\<rparr>]"
    if "hasGroqKey w" "sdk_available w" "body r = Some pd" "pd \<noteq> JNull"
      "prompt pd = Some p" "groq w p = Resolved (Some content)"
    using POST_live [OF that(1-5)] that(6) by (simp add: analysis_response_def ok_def)
  have d: "payload (reply (POST_limited w m r)) = Results ''Analysis complete''
        [\<lparr>nct_id = ''NCT04743505'', title = ''Lung Cancer Study'',
          status = ''ELIGIBLE'', explanation = take 200 content\<rparr>]"
    if "hasGroqKey w" "sdk_available w" "body r = Some pd" "pd \<noteq> JNull"
      "prompt_limited pd = Some q" "groq w q = Resolved (Some content)"
      "userCount m (client_ip r) < MAX_REQUESTS_PER_IP"
    using resume_live [OF that(1-5)] that(6,7)
    by (simp add: limited_admitted analysis_response_def ok_def)
  have e: "length t \<le> 300" if "analysis_text patient j = Some t"
    using that by (rule analysis_text_bounded)
  have f: "analysis_text patient j =
      Some (take 300 (analysis_sentence c (status_is ''ELIGIBLE'' j) e))"
    if "j \<noteq> JNull" "patient \<noteq> JNull" "truthy (field j ''explanation'')"
      "or_default (field patient ''conditions'') ''condition'' = Some c"
      "to_string (field j ''explanation'') = Some e"
    using that by (rule analysis_text_cut)
  from a b c d e f show ?thesis by blast
qed

theorem explanation_is_bounded_witness:
  "payload (fst (POST (live_world (Resolved (Some (replicate 500 (CHR ''a'')))))
       (request_from ''1.2.3.4'' (Some profile_A)))) =
     Results ''Analysis complete''
       [\<lparr>nct_id = ''NCT04743505'', title = ''Lung Cancer Study'', status = ''ELIGIBLE'',
         explanation = replicate 200 (CHR ''a'')\<rparr>] \<and>
   payload (reply (POST_limited (live_world (Resolved (Some (replicate 500 (CHR ''a'')))))
       Map.empty (request_from ''1.2.3.4'' (Some profile_A)))) =
     Results ''Analysis complete''
       [\<lparr>nct_id = ''NCT04743505'', title = ''Lung Cancer Study'', status = ''ELIGIBLE'',
         explanation = replicate 200 (CHR ''a'')\<rparr>] \<and>
   length (replicate 200 (CHR ''a'')) \<le> 300 \<and>
   analysis_text profile_A
       (JObj [(''status'', JStr ''ELIGIBLE''),
              (''explanation'', JStr (replicate 400 (CHR ''a'')))]) =
     Some (''Based on the patient's Non-Small Cell Lung Cancer and biomarkers, '' @
           ''this trial appears to be a good match. '' @ replicate 195 (CHR ''a'')) \<and>
   length (''Based on the patient's Non-Small Cell Lung Cancer and biomarkers, '' @
           ''this trial appears to be a good match. '' @ replicate 195 (CHR ''a'')) = 300"
proof -
  let ?w = "live_world (Resolved (Some (replicate 500 (CHR ''a''))))"
  let ?r = "request_from ''1.2.3.4'' (Some profile_A)"
  let ?x = "\<lparr>nct_id = ''NCT04743505'', title = ''Lung Cancer Study'', status = ''ELIGIBLE'',
         explanation = take 200 (replicate 500 (CHR ''a''))\<rparr>"
  let ?j = "JObj [(''status'', JStr ''ELIGIBLE''),
              (''explanation'', JStr (replicate 400 (CHR ''a'')))]"
  let ?p = "prompt_text ''55'' ''Male'' ''Non-Small Cell Lung Cancer'' ''Carboplatin''
      ''PD-L1: 60%''"
  let ?q = "prompt_limited_text ''55'' ''Male'' ''Non-Small Cell Lung Cancer'' ''Carboplatin''
      ''PD-L1: 60%''"
  let ?t = "take 300 (analysis_sentence ''Non-Small Cell Lung Cancer''
      (status_is ''ELIGIBLE'' ?j) (replicate 400 (CHR ''a'')))"
  note t = explanation_is_bounded [where w = ?w and r = ?r and pd = profile_A
      and p = ?p and q = ?q and content = "replicate 500 (CHR ''a'')"
      and msg = "''Analysis complete''" and m = Map.empty
      and ms = "[?x]" and x = ?x and patient = profile_A and j = ?j and t = ?t
      and c = "''Non-Small Cell Lung Cancer''" and e = "replicate 400 (CHR ''a'')"]
  have cut: "take 200 (replicate 500 (CHR ''a'')) = replicate 200 (CHR ''a'')" by simp
  have live: "hasGroqKey ?w \<and> sdk_available ?w \<and> body ?r = Some profile_A \<and>
      profile_A \<noteq> JNull \<and> prompt profile_A = Some ?p \<and>
      groq ?w ?p = Resolved (Some (replicate 500 (CHR ''a'')))"
    by (simp only: hasGroqKey_live sdk_live body_request_from profile_A_not_null groq_live
        prompt_profile_A not_False_eq_True simp_thms)
  have count: "userCount Map.empty (client_ip ?r) < MAX_REQUESTS_PER_IP"
    by (simp add: MAX_REQUESTS_PER_IP_def)
  have limited: "hasGroqKey ?w \<and> sdk_available ?w \<and> body ?r = Some profile_A \<and>
      profile_A \<noteq> JNull \<and> prompt_limited profile_A = Some ?q \<and>
      groq ?w ?q = Resolved (Some (replicate 500 (CHR ''a''))) \<and>
      userCount Map.empty (client_ip ?r) < MAX_REQUESTS_PER_IP"
    using count
    by (simp only: hasGroqKey_live sdk_live body_request_from profile_A_not_null groq_live
        prompt_limited_profile_A not_False_eq_True simp_thms)
  note p = t [THEN conjunct2, THEN conjunct2, THEN conjunct1, THEN mp, OF live]
  note q = t [THEN conjunct2, THEN conjunct2, THEN conjunct2, THEN conjunct1, THEN mp,
      OF limited]
  have mem: "?x \<in> set [?x]" by (simp only: list.set_intros)
  have "length (explanation ?x) \<le> 300"
    by (rule t [THEN conjunct1, THEN mp, OF conjI [OF p mem]])
  then have l: "length (replicate 200 (CHR ''a'')) \<le> 300"
    unfolding cut by (simp only: match_result.simps)
  have truthy: "truthy (field ?j ''explanation'')"
    by (simp add: truthy_def field_def)
  have conv: "to_string (field ?j ''explanation'') = Some (replicate 400 (CHR ''a''))"
    by (simp add: to_string_def field_def)
  have cond: "or_default (field profile_A ''conditions'') ''condition'' =
      Some ''Non-Small Cell Lung Cancer''"
    by (simp add: or_default_def truthy_def to_string_def field_def profile_A_def)
  have pre: "?j \<noteq> JNull \<and> profile_A \<noteq> JNull \<and> truthy (field ?j ''explanation'') \<and>
      or_default (field profile_A ''conditions'') ''condition'' =
        Some ''Non-Small Cell Lung Cancer'' \<and>
      to_string (field ?j ''explanation'') = Some (replicate 400 (CHR ''a''))"
    using truthy conv cond by (simp only: json.distinct profile_A_not_null
        not_False_eq_True simp_thms)
  note a = t [THEN conjunct2, THEN conjunct2, THEN conjunct2, THEN conjunct2,
      THEN conjunct2, THEN mp, OF pre]
  have elig: "status_is ''ELIGIBLE'' ?j" by (simp add: status_is_def field_def)
  have val: "?t = ''Based on the patient's Non-Small Cell Lung Cancer and biomarkers, '' @
           ''this trial appears to be a good match. '' @ replicate 195 (CHR ''a'')"
    unfolding analysis_sentence_def using elig by simp
  have len: "length (''Based on the patient's Non-Small Cell Lung Cancer and biomarkers, '' @
           ''this trial appears to be a good match. '' @ replicate 195 (CHR ''a'')) = 300"
    by simp
  from p q l a len show ?thesis
    unfolding cut val by (intro conjI)
qed

section \<open>The counts of the report\<close>

text \<open>
  Claim C9: for every list of matches, each with one of the three statuses, the counts of
  \<open>ELIGIBLE\<close>, \<open>NOT_ELIGIBLE\<close> and \<open>NEEDS_REVIEW\<close> matches add up to the total; a
  missing or empty list gives four zeros.
\<close>

theorem counts_conserve_total:
  assumes "\<And>ms x. matches = Some ms \<Longrightarrow> x \<in> set ms \<Longrightarrow>
      status_is ''ELIGIBLE'' x \<or> status_is ''NOT_ELIGIBLE'' x \<or> status_is ''NEEDS_REVIEW'' x"
  shows "eligibleCount matches + notEligibleCount matches + reviewCount matches =
           totalCount matches \<and>
         (matches = None \<or> matches = Some [] \<longrightarrow>
            eligibleCount matches = 0 \<and> notEligibleCount matches = 0 \<and>
            reviewCount matches = 0 \<and> totalCount matches = 0)"
proof (cases matches)
  case None
  then show ?thesis
    by (simp add: eligibleCount_def notEligibleCount_def reviewCount_def totalCount_def)
next
  case (Some ms)
  with assms have "\<forall>x \<in> set ms. status_is ''ELIGIBLE'' x \<or> status_is ''NOT_ELIGIBLE'' x \<or>
       status_is ''NEEDS_REVIEW'' x" by blast
  from filter_counts [OF this] show ?thesis
    by (auto simp: Some eligibleCount_def notEligibleCount_def reviewCount_def totalCount_def)
qed

theorem counts_conserve_total_witness:
  "eligibleCount (Some [match_json \<lparr>nct_id = ''NCT04743505'', title = ''Lung Cancer Study'',
          status = ''ELIGIBLE'', explanation = ''[]''\<rparr>,
       JObj [(''status'', JStr ''NEEDS_REVIEW'')], JObj [(''status'', JStr ''NOT_ELIGIBLE'')],
       JObj [(''status'', JStr ''NEEDS_REVIEW'')]]) = 1 \<and>
   notEligibleCount (Some [match_json \<lparr>nct_id = ''NCT04743505'', title = ''Lung Cancer Study'',
          status = ''ELIGIBLE'', explanation = ''[]''\<rparr>,
       JObj [(''status'', JStr ''NEEDS_REVIEW'')], JObj [(''status'', JStr ''NOT_ELIGIBLE'')],
       JObj [(''status'', JStr ''NEEDS_REVIEW'')]]) = 1 \<and>
   reviewCount (Some [match_json \<lparr>nct_id = ''NCT04743505'', title = ''Lung Cancer Study'',
          status = ''ELIGIBLE'', explanation = ''[]''\<rparr>,
       JObj [(''status'', JStr ''NEEDS_REVIEW'')], JObj [(''status'', JStr ''NOT_ELIGIBLE'')],
       JObj [(''status'', JStr ''NEEDS_REVIEW'')]]) = 2 \<and>
   totalCount (Some [match_json \<lparr>nct_id = ''NCT04743505'', title = ''Lung Cancer Study'',
          status = ''ELIGIBLE'', explanation = ''[]''\<rparr>,
       JObj [(''status'', JStr ''NEEDS_REVIEW'')], JObj [(''status'', JStr ''NOT_ELIGIBLE'')],
       JObj [(''status'', JStr ''NEEDS_REVIEW'')]]) = 1 + 1 + 2"
proof -
  let ?L = "[match_json \<lparr>nct_id = ''NCT04743505'', title = ''Lung Cancer Study'',
          status = ''ELIGIBLE'', explanation = ''[]''\<rparr>,
       JObj [(''status'', JStr ''NEEDS_REVIEW'')], JObj [(''status'', JStr ''NOT_ELIGIBLE'')],
       JObj [(''status'', JStr ''NEEDS_REVIEW'')]]"
  have e: "eligibleCount (Some ?L) = 1"
    by (simp add: eligibleCount_def status_is_def field_def match_json_def)
  have n: "notEligibleCount (Some ?L) = 1"
    by (simp add: notEligibleCount_def status_is_def field_def match_json_def)
  have r: "reviewCount (Some ?L) = 2"
    by (simp add: reviewCount_def status_is_def field_def match_json_def)
  have h: "status_is ''ELIGIBLE'' x \<or> status_is ''NOT_ELIGIBLE'' x \<or> status_is ''NEEDS_REVIEW'' x"
    if "Some ?L = Some ms" "x \<in> set ms" for ms x
    using that by (auto simp: status_is_def field_def match_json_def)
  note c = counts_conserve_total [of "Some ?L", OF h, THEN conjunct1]
  have t: "totalCount (Some ?L) = 1 + 1 + 2"
    using c unfolding e n r by simp
  show ?thesis
    unfolding e n r t by simp
qed

section \<open>When the counter changes\<close>




end
